theory Spec2Isabelle
  imports Main "HOL-Library.Char_ord" "HOL-Library.List_Lexorder"
begin

section \<open>The Go standard library, as far as the client uses it\<close>

text \<open>
  The client delegates JSON syntax, string quoting, HTTP status texts and URL
  validation to Go's standard library. Those parts are parameters of the model,
  collected in one record, so that every theorem holds for any library behaviour.
  What the library does with a parsed JSON value (matching members to struct
  fields, storing them, type errors) and the path functions \<^verbatim>\<open>url.PathEscape\<close>
  and \<^verbatim>\<open>path.Join\<close> are written out below, where the client uses them.
  A JSON text is related to the value it denotes by \<open>json_syntax\<close>
  (\<^verbatim>\<open>json.Unmarshal\<close>: the whole text is one value) and \<open>json_first\<close>
  (\<^verbatim>\<open>json.Decoder.Decode\<close>: the first value of a stream); both give
  \<open>None\<close> for malformed input. Object members are kept in source order,
  duplicates included.
\<close>

datatype json = JNull | JBool bool | JNumber string | JString string
  | JArray "json list" | JObject "(string \<times> json) list"

record stdlib =
  json_syntax :: "string \<Rightarrow> json option"
  json_first :: "string \<Rightarrow> json option"
  json_foldName :: "string \<Rightarrow> string"
  json_quote :: "string \<Rightarrow> string"
  http_StatusText :: "int \<Rightarrow> string"
  url_valid :: "string \<Rightarrow> bool"
  url_QueryEscape :: "string \<Rightarrow> string"

text \<open>\<^verbatim>\<open>strings.Join\<close>.\<close>

fun join_with :: "string \<Rightarrow> string list \<Rightarrow> string" where
  "join_with sep [] = []"
| "join_with sep [x] = x"
| "join_with sep (x # y # ys) = x @ sep @ join_with sep (y # ys)"

section \<open>Errors (errors.go)\<close>

record APIError =
  Message :: string
  Type :: string
  HTTPStatus :: int

text \<open>
  A non-nil Go \<^verbatim>\<open>error\<close> value. \<open>ErrAPI\<close> is an \<^verbatim>\<open>*APIError\<close>, which has no
  \<^verbatim>\<open>Unwrap\<close> method; \<open>ErrWrap ctx e\<close> is \<^verbatim>\<open>fmt.Errorf(ctx + ": %w", e)\<close>, whose
  \<^verbatim>\<open>Unwrap\<close> returns \<open>e\<close>; the other constructors are library errors without
  \<^verbatim>\<open>Unwrap\<close>. The nil error is \<open>None\<close> of \<open>goerror option\<close>.
\<close>

datatype goerror = ErrAPI APIError | ErrJSONSyntax | ErrJSONType | ErrLib string
  | ErrWrap string goerror

definition ErrTypeNotFound :: string where
  "ErrTypeNotFound = ''NOT_FOUND''"

definition ErrTypePermissionDenied :: string where
  "ErrTypePermissionDenied = ''PERMISSION_DENIED''"

definition APIError_IsNotFound :: "APIError \<Rightarrow> bool" where
  "APIError_IsNotFound e = (Type e = ErrTypeNotFound)"

definition APIError_IsPermissionDenied :: "APIError \<Rightarrow> bool" where
  "APIError_IsPermissionDenied e = (Type e = ErrTypePermissionDenied)"

text \<open>
  \<^verbatim>\<open>errors.As(err, &apiErr)\<close> for a target of type \<^verbatim>\<open>*APIError\<close>: walk the chain
  by \<^verbatim>\<open>Unwrap\<close> and stop at the first \<^verbatim>\<open>*APIError\<close>.
\<close>

fun errors_As :: "goerror \<Rightarrow> APIError option" where
  "errors_As (ErrAPI a) = Some a"
| "errors_As (ErrWrap ctx e) = errors_As e"
| "errors_As ErrJSONSyntax = None"
| "errors_As ErrJSONType = None"
| "errors_As (ErrLib msg) = None"

definition IsNotFound :: "goerror option \<Rightarrow> bool" where
  "IsNotFound err =
     (case err of
        None \<Rightarrow> False
      | Some e \<Rightarrow> (case errors_As e of Some apiErr \<Rightarrow> APIError_IsNotFound apiErr | None \<Rightarrow> False))"

definition IsPermissionDenied :: "goerror option \<Rightarrow> bool" where
  "IsPermissionDenied err =
     (case err of
        None \<Rightarrow> False
      | Some e \<Rightarrow>
          (case errors_As e of Some apiErr \<Rightarrow> APIError_IsPermissionDenied apiErr | None \<Rightarrow> False))"

text \<open>
  The error chain of the claims' wording: the error itself followed by the results
  of successive \<^verbatim>\<open>Unwrap\<close> calls.
\<close>

fun error_chain :: "goerror \<Rightarrow> goerror list" where
  "error_chain (ErrWrap ctx e) = ErrWrap ctx e # error_chain e"
| "error_chain e = [e]"

section \<open>Nullable attribute map\<close>

text \<open>
  \<^verbatim>\<open>type NullableStringMap map[string]string\<close>. A Go map value is either nil
  (\<open>None\<close>) or an allocated table (\<open>Some al\<close>, an association list with one entry
  per key; the order of the list has no meaning). \<open>map_index\<close> is the index
  expression \<^verbatim>\<open>m[k]\<close>, which yields the zero value \<^verbatim>\<open>""\<close> for a missing key and
  for the nil map; \<open>map_keys\<close> is the set of keys that \<^verbatim>\<open>range\<close> visits;
  \<open>map_store\<close> is the assignment \<^verbatim>\<open>m[k] = v\<close>.
\<close>

type_synonym gomap = "(string \<times> string) list"
type_synonym NullableStringMap = "gomap option"

definition map_index :: "NullableStringMap \<Rightarrow> string \<Rightarrow> string" where
  "map_index m k =
     (case m of None \<Rightarrow> '''' | Some al \<Rightarrow> (case map_of al k of None \<Rightarrow> '''' | Some v \<Rightarrow> v))"

definition map_keys :: "NullableStringMap \<Rightarrow> string set" where
  "map_keys m = (case m of None \<Rightarrow> {} | Some al \<Rightarrow> fst ` set al)"

definition map_len :: "NullableStringMap \<Rightarrow> nat" where
  "map_len m = (case m of None \<Rightarrow> 0 | Some al \<Rightarrow> length al)"

fun map_store :: "string \<Rightarrow> 'v \<Rightarrow> (string \<times> 'v) list \<Rightarrow> (string \<times> 'v) list" where
  "map_store k v [] = [(k, v)]"
| "map_store k v (p # ps) = (if fst p = k then (k, v) # ps else p # map_store k v ps)"



text \<open>
  The struct tags of the \<^verbatim>\<open>Attributes\<close> fields: \<^verbatim>\<open>json:"attributes"\<close> in the five
  resource structs that the client sends (\<^verbatim>\<open>Connection\<close>, \<^verbatim>\<open>ConnectionGroup\<close>,
  \<^verbatim>\<open>User\<close>, \<^verbatim>\<open>UserGroup\<close>, \<^verbatim>\<open>SharingProfile\<close>), and
  \<^verbatim>\<open>json:"attributes,omitempty"\<close> in \<^verbatim>\<open>Self\<close>, which the client only decodes.
  The encoder leaves a struct field out exactly when its tag has \<^verbatim>\<open>omitempty\<close>
  and the value is empty (for a map: length zero).
\<close>

record json_tag =
  tag_name :: string
  tag_omitempty :: bool






definition Self_Attributes_tag :: json_tag where
  "Self_Attributes_tag = \<lparr>tag_name = ''attributes'', tag_omitempty = True\<rparr>"

definition field_omitted :: "json_tag \<Rightarrow> NullableStringMap \<Rightarrow> bool" where
  "field_omitted tag m = (tag_omitempty tag \<and> map_len m = 0)"

text \<open>
  \<^verbatim>\<open>json.Unmarshal(data, &raw)\<close> with \<^verbatim>\<open>raw map[string]*string\<close>, starting from
  the nil map. A string member stores a pointer to the string, a \<^verbatim>\<open>null\<close> member
  stores the nil pointer (\<open>None\<close>), a later duplicate key overwrites an earlier one.
  A member of any other type is a type error; the library goes on with the next
  member and returns the first such error at the end. The text \<^verbatim>\<open>null\<close> leaves
  \<^verbatim>\<open>raw\<close> nil.
\<close>

type_synonym rawmap = "(string \<times> string option) list"

fun raw_member :: "string \<times> json \<Rightarrow> goerror option \<times> rawmap \<Rightarrow> goerror option \<times> rawmap" where
  "raw_member (k, JString s) (err, raw) = (err, map_store k (Some s) raw)"
| "raw_member (k, JNull) (err, raw) = (err, map_store k None raw)"
| "raw_member (k, v) (err, raw) =
     ((case err of None \<Rightarrow> Some ErrJSONType | Some e \<Rightarrow> Some e), map_store k None raw)"

definition json_Unmarshal_raw :: "stdlib \<Rightarrow> string \<Rightarrow> goerror option \<times> rawmap option" where
  "json_Unmarshal_raw L data =
     (case json_syntax L data of
        None \<Rightarrow> (Some ErrJSONSyntax, None)
      | Some JNull \<Rightarrow> (None, None)
      | Some (JObject kvs) \<Rightarrow>
          (case fold raw_member kvs (None, []) of (err, raw) \<Rightarrow> (err, Some raw))
      | Some other \<Rightarrow> (Some ErrJSONType, None))"

text \<open>
  \<^verbatim>\<open>
  func (m *NullableStringMap) UnmarshalJSON(data []byte) error {
      var raw map[string]*string
      if err := json.Unmarshal(data, &raw); err != nil { return err }
      *m = make(NullableStringMap, len(raw))
      for k, v := range raw {
          if v != nil { (*m)[k] = *v }
      }
      return nil
  }
  \<close>
  The function returns the error and the new contents of \<^verbatim>\<open>*m\<close>. The loop is a
  fold over the entries of \<^verbatim>\<open>raw\<close> (none for the nil map).
\<close>

fun copy_entry :: "string \<times> string option \<Rightarrow> gomap \<Rightarrow> gomap" where
  "copy_entry (k, Some s) m = map_store k s m"
| "copy_entry (k, None) m = m"

definition UnmarshalJSON ::
  "stdlib \<Rightarrow> NullableStringMap \<Rightarrow> string \<Rightarrow> goerror option \<times> NullableStringMap" where
  "UnmarshalJSON L m data =
     (case json_Unmarshal_raw L data of
        (Some err, raw) \<Rightarrow> (Some err, m)
      | (None, raw) \<Rightarrow>
          (None, Some (fold copy_entry (case raw of None \<Rightarrow> [] | Some r \<Rightarrow> r) [])))"

section \<open>Patch-operation builders\<close>

text \<open>
  \<^verbatim>\<open>type PatchOperation struct { Op, Path, Value string }\<close>.
  Each builder is a pure function returning one struct literal; Go's string
  \<^verbatim>\<open>+\<close> is list append on bytes.
\<close>

record PatchOperation =
  Op :: string
  Path :: string
  Value :: string

definition AddConnectionPermission :: "string \<Rightarrow> string \<Rightarrow> PatchOperation" where
  "AddConnectionPermission connectionID permission =
     \<lparr>Op = ''add'', Path = ''/connectionPermissions/'' @ connectionID, Value = permission\<rparr>"

definition RemoveConnectionPermission :: "string \<Rightarrow> string \<Rightarrow> PatchOperation" where
  "RemoveConnectionPermission connectionID permission =
     \<lparr>Op = ''remove'', Path = ''/connectionPermissions/'' @ connectionID, Value = permission\<rparr>"

definition AddConnectionGroupPermission :: "string \<Rightarrow> string \<Rightarrow> PatchOperation" where
  "AddConnectionGroupPermission groupID permission =
     \<lparr>Op = ''add'', Path = ''/connectionGroupPermissions/'' @ groupID, Value = permission\<rparr>"

definition RemoveConnectionGroupPermission :: "string \<Rightarrow> string \<Rightarrow> PatchOperation" where
  "RemoveConnectionGroupPermission groupID permission =
     \<lparr>Op = ''remove'', Path = ''/connectionGroupPermissions/'' @ groupID, Value = permission\<rparr>"

definition AddSharingProfilePermission :: "string \<Rightarrow> string \<Rightarrow> PatchOperation" where
  "AddSharingProfilePermission profileID permission =
     \<lparr>Op = ''add'', Path = ''/sharingProfilePermissions/'' @ profileID, Value = permission\<rparr>"

definition RemoveSharingProfilePermission :: "string \<Rightarrow> string \<Rightarrow> PatchOperation" where
  "RemoveSharingProfilePermission profileID permission =
     \<lparr>Op = ''remove'', Path = ''/sharingProfilePermissions/'' @ profileID, Value = permission\<rparr>"

definition AddUserPermission :: "string \<Rightarrow> string \<Rightarrow> PatchOperation" where
  "AddUserPermission targetUsername permission =
     \<lparr>Op = ''add'', Path = ''/userPermissions/'' @ targetUsername, Value = permission\<rparr>"

definition RemoveUserPermission :: "string \<Rightarrow> string \<Rightarrow> PatchOperation" where
  "RemoveUserPermission targetUsername permission =
     \<lparr>Op = ''remove'', Path = ''/userPermissions/'' @ targetUsername, Value = permission\<rparr>"

definition AddUserGroupPermission :: "string \<Rightarrow> string \<Rightarrow> PatchOperation" where
  "AddUserGroupPermission groupID permission =
     \<lparr>Op = ''add'', Path = ''/userGroupPermissions/'' @ groupID, Value = permission\<rparr>"

definition RemoveUserGroupPermission :: "string \<Rightarrow> string \<Rightarrow> PatchOperation" where
  "RemoveUserGroupPermission groupID permission =
     \<lparr>Op = ''remove'', Path = ''/userGroupPermissions/'' @ groupID, Value = permission\<rparr>"

definition AddSystemPermission :: "string \<Rightarrow> PatchOperation" where
  "AddSystemPermission permission =
     \<lparr>Op = ''add'', Path = ''/systemPermissions'', Value = permission\<rparr>"

definition RemoveSystemPermission :: "string \<Rightarrow> PatchOperation" where
  "RemoveSystemPermission permission =
     \<lparr>Op = ''remove'', Path = ''/systemPermissions'', Value = permission\<rparr>"

definition AddGroupMembership :: "string \<Rightarrow> PatchOperation" where
  "AddGroupMembership identifier = \<lparr>Op = ''add'', Path = ''/'', Value = identifier\<rparr>"

definition RemoveGroupMembership :: "string \<Rightarrow> PatchOperation" where
  "RemoveGroupMembership identifier = \<lparr>Op = ''remove'', Path = ''/'', Value = identifier\<rparr>"

section \<open>Resource paths (client.go)\<close>

text \<open>
  \<^verbatim>\<open>url.PathEscape\<close> of Go's \<^verbatim>\<open>net/url\<close>, written out from the library: a byte
  is escaped as \<^verbatim>\<open>%XX\<close> (upper-case hex) unless \<^verbatim>\<open>shouldEscape\<close> in the mode
  \<^verbatim>\<open>encodePathSegment\<close> says otherwise. Letters, digits and \<^verbatim>\<open>- _ . ~\<close> are
  never escaped; of the reserved characters \<^verbatim>\<open>$ & + , / : ; = ? @\<close> only
  \<^verbatim>\<open>/ ; , ?\<close> are escaped in a path segment; every other byte is escaped.
\<close>

definition is_alnum :: "char \<Rightarrow> bool" where
  "is_alnum c = (CHR ''a'' \<le> c \<and> c \<le> CHR ''z'' \<or> CHR ''A'' \<le> c \<and> c \<le> CHR ''Z''
                 \<or> CHR ''0'' \<le> c \<and> c \<le> CHR ''9'')"

definition shouldEscape :: "char \<Rightarrow> bool" where
  "shouldEscape c =
     (if is_alnum c then False
      else if c \<in> set ''-_.~'' then False
      else if c \<in> set ''$&+,/:;=?@''
        then c = CHR ''/'' \<or> c = CHR '';'' \<or> c = CHR '','' \<or> c = CHR ''?''
      else True)"

definition upperhex :: string where
  "upperhex = ''0123456789ABCDEF''"

definition hex_escape :: "char \<Rightarrow> string" where
  "hex_escape c = [CHR ''%'', upperhex ! (of_char c div 16), upperhex ! (of_char c mod 16)]"

definition url_PathEscape :: "string \<Rightarrow> string" where
  "url_PathEscape s = concat (map (\<lambda>c. if shouldEscape c then hex_escape c else [c]) s)"

text \<open>
  \<^verbatim>\<open>path.Join\<close> and \<^verbatim>\<open>path.Clean\<close> of Go's \<^verbatim>\<open>path\<close>, written out from the
  library. \<^verbatim>\<open>Join\<close> drops leading empty elements, joins the rest with slashes and
  cleans the result (the empty string when every element is empty). \<^verbatim>\<open>Clean\<close>
  reads the path element by element: empty elements and \<^verbatim>\<open>.\<close> are dropped,
  \<^verbatim>\<open>..\<close> removes the element written before it (and is kept at the start of a
  path that is not rooted, dropped at the start of a rooted one). The elements
  written so far are kept last-first in \<open>out\<close>.
\<close>

fun split_slash :: "string \<Rightarrow> string list" where
  "split_slash [] = [[]]"
| "split_slash (c # cs) =
     (if c = CHR ''/'' then [] # split_slash cs
      else (case split_slash cs of e # es \<Rightarrow> (c # e) # es | [] \<Rightarrow> [[c]]))"

definition clean_elem :: "bool \<Rightarrow> string list \<Rightarrow> string \<Rightarrow> string list" where
  "clean_elem rooted out e =
     (if e = [] \<or> e = ''.'' then out
      else if e = ''..'' then
        (case out of
           [] \<Rightarrow> if rooted then [] else [''..'']
         | prev # rest \<Rightarrow> if prev = ''..'' then ''..'' # out else rest)
      else e # out)"

definition path_Clean :: "string \<Rightarrow> string" where
  "path_Clean p =
     (if p = [] then ''.''
      else
        let rooted = (hd p = CHR ''/'');
            out = rev (foldl (clean_elem rooted) [] (split_slash p));
            s = (if rooted then ''/'' else []) @ join_with ''/'' out
        in if s = [] then ''.'' else s)"

definition path_Join :: "string list \<Rightarrow> string" where
  "path_Join elem =
     (if concat elem = [] then []
      else path_Clean (join_with ''/'' (dropWhile (\<lambda>e. e = []) elem)))"

section \<open>Client, requests and responses (client.go)\<close>

text \<open>
  An \<^verbatim>\<open>*http.Request\<close> as far as the client sets it, and an \<^verbatim>\<open>*http.Response\<close> as
  far as the client reads it. Reading the response body gives its bytes or fails
  (\<open>Inl\<close>). The header holds one value per key (\<^verbatim>\<open>Header.Set\<close> replaces).
  The transport \<^verbatim>\<open>httpClient.Do\<close> is a field of the client: it answers a request
  with a response or with a transport error.
\<close>

record request =
  req_method :: string
  req_url :: string
  req_header :: "(string \<times> string) list"
  req_body :: "string option"

record response =
  StatusCode :: int
  Body :: "goerror + string"

record Client =
  baseURL :: string
  httpClient :: "request \<Rightarrow> goerror + response"
  authToken :: string
  dataSource :: string

definition Client_DataSource :: "Client \<Rightarrow> string" where
  "Client_DataSource c = dataSource c"

definition Client_AuthToken :: "Client \<Rightarrow> string" where
  "Client_AuthToken c = authToken c"

text \<open>
  \<^verbatim>\<open>
  func (c *Client) dataPath(segments ...string) string {
      parts := make([]string, 0, len(segments)+2)
      parts = append(parts, url.PathEscape(c.dataSource))
      for _, s := range segments { parts = append(parts, url.PathEscape(s)) }
      return "/api/session/data/" + path.Join(parts...)
  }
  \<close>
\<close>

definition dataPath :: "Client \<Rightarrow> string list \<Rightarrow> string" where
  "dataPath c segments =
     ''/api/session/data/'' @ path_Join (url_PathEscape (dataSource c) # map url_PathEscape segments)"

text \<open>
  \<^verbatim>\<open>http.NewRequestWithContext\<close>: fails when the URL does not parse, else gives a
  request with no header set.
\<close>

definition http_NewRequest ::
  "stdlib \<Rightarrow> string \<Rightarrow> string \<Rightarrow> string option \<Rightarrow> goerror + request" where
  "http_NewRequest L method url body =
     (if url_valid L url
      then Inr \<lparr>req_method = method, req_url = url, req_header = [], req_body = body\<rparr>
      else Inl (ErrLib ''net/url: invalid URL''))"

definition Header_Set :: "string \<Rightarrow> string \<Rightarrow> request \<Rightarrow> request" where
  "Header_Set key v req = req\<lparr>req_header := map_store key v (req_header req)\<rparr>"

definition Header_Get :: "request \<Rightarrow> string \<Rightarrow> string option" where
  "Header_Get req key = map_of (req_header req) key"

definition first_error :: "goerror option \<Rightarrow> goerror \<Rightarrow> goerror option" where
  "first_error saved e = (case saved of None \<Rightarrow> Some e | Some e0 \<Rightarrow> Some e0)"

text \<open>
  \<^verbatim>\<open>json.Unmarshal(body, apiErr)\<close> into an \<^verbatim>\<open>*APIError\<close>. The struct has the JSON
  fields \<^verbatim>\<open>message\<close> and \<^verbatim>\<open>type\<close> (\<^verbatim>\<open>HTTPStatus\<close> is tagged \<^verbatim>\<open>json:"-"\<close>). A
  member names a field when its key is the field's name, or else when key and
  name are equal after the library's case folding. A string member is stored, a
  \<^verbatim>\<open>null\<close> member changes nothing, a member of another type is a type error
  (the first one is returned at the end), an unknown key is skipped. A syntax
  error is found before anything is stored.
\<close>

datatype APIError_field = FMessage | FType

definition APIError_field_of :: "stdlib \<Rightarrow> string \<Rightarrow> APIError_field option" where
  "APIError_field_of L key =
     (if key = ''message'' then Some FMessage
      else if key = ''type'' then Some FType
      else if json_foldName L key = json_foldName L ''message'' then Some FMessage
      else if json_foldName L key = json_foldName L ''type'' then Some FType
      else None)"

fun APIError_store :: "APIError_field \<Rightarrow> string \<Rightarrow> APIError \<Rightarrow> APIError" where
  "APIError_store FMessage s a = a\<lparr>Message := s\<rparr>"
| "APIError_store FType s a = a\<lparr>Type := s\<rparr>"

definition APIError_member ::
  "stdlib \<Rightarrow> string \<times> json \<Rightarrow> goerror option \<times> APIError \<Rightarrow> goerror option \<times> APIError" where
  "APIError_member L kv st =
     (case APIError_field_of L (fst kv) of
        None \<Rightarrow> st
      | Some f \<Rightarrow>
          (case snd kv of
             JString s \<Rightarrow> (fst st, APIError_store f s (snd st))
           | JNull \<Rightarrow> st
           | _ \<Rightarrow> (first_error (fst st) ErrJSONType, snd st)))"

definition json_Unmarshal_APIError ::
  "stdlib \<Rightarrow> string \<Rightarrow> APIError \<Rightarrow> goerror option \<times> APIError" where
  "json_Unmarshal_APIError L body a =
     (case json_syntax L body of
        None \<Rightarrow> (Some ErrJSONSyntax, a)
      | Some JNull \<Rightarrow> (None, a)
      | Some (JObject kvs) \<Rightarrow> fold (APIError_member L) kvs (None, a)
      | Some other \<Rightarrow> (Some ErrJSONType, a))"

text \<open>
  \<^verbatim>\<open>
  func (c *Client) parseError(resp *http.Response) error {
      apiErr := &APIError{HTTPStatus: resp.StatusCode}
      body, err := io.ReadAll(resp.Body)
      if err != nil || len(body) == 0 {
          apiErr.Message = http.StatusText(resp.StatusCode)
          return apiErr
      }
      if err := json.Unmarshal(body, apiErr); err != nil {
          apiErr.Message = string(body)
      }
      return apiErr
  }
  \<close>
  The result is always an \<^verbatim>\<open>*APIError\<close>, so the model returns the struct.
\<close>

definition parseError :: "stdlib \<Rightarrow> response \<Rightarrow> APIError" where
  "parseError L resp =
     (let apiErr = \<lparr>Message = '''', Type = '''', HTTPStatus = StatusCode resp\<rparr> in
      case Body resp of
        Inl err \<Rightarrow> apiErr\<lparr>Message := http_StatusText L (StatusCode resp)\<rparr>
      | Inr body \<Rightarrow>
          if length body = 0 then apiErr\<lparr>Message := http_StatusText L (StatusCode resp)\<rparr>
          else (case json_Unmarshal_APIError L body apiErr of
                  (Some err, apiErr') \<Rightarrow> apiErr'\<lparr>Message := body\<rparr>
                | (None, apiErr') \<Rightarrow> apiErr'))"

text \<open>
  \<^verbatim>\<open>Client.do\<close>. The request body is any Go value (\<open>None\<close> for the nil interface);
  \<open>marshal\<close> is \<^verbatim>\<open>json.Marshal\<close> on it. \<open>do_request\<close> is the part of \<^verbatim>\<open>do\<close> that
  builds the request (up to the two \<^verbatim>\<open>Header.Set\<close> calls); \<open>Client_do\<close> returns the
  request handed to the transport, if one was sent, beside the result of \<^verbatim>\<open>do\<close>.
  \<^verbatim>\<open>
      if body != nil { data, err := json.Marshal(body); if err != nil { return nil, ...%w } ... }
      req, err := http.NewRequestWithContext(ctx, method, c.baseURL+path, bodyReader)
      if err != nil { return nil, fmt.Errorf("guacamole: build request: %w", err) }
      if body != nil { req.Header.Set("Content-Type", "application/json") }
      if c.authToken != "" { req.Header.Set("Guacamole-Token", c.authToken) }
      resp, err := c.httpClient.Do(req)
      if err != nil { return nil, fmt.Errorf("guacamole: %s %s: %w", method, path, err) }
      if resp.StatusCode < 200 || resp.StatusCode >= 300 { return nil, c.parseError(resp) }
      return resp, nil
  \<close>
\<close>

definition do_request ::
  "stdlib \<Rightarrow> ('b \<Rightarrow> goerror + string) \<Rightarrow> Client \<Rightarrow> string \<Rightarrow> string \<Rightarrow> 'b option
     \<Rightarrow> goerror + request" where
  "do_request L marshal c method path body =
     (case (case body of None \<Rightarrow> Inr None
            | Some b \<Rightarrow> (case marshal b of Inl err \<Rightarrow> Inl err | Inr data \<Rightarrow> Inr (Some data))) of
        Inl err \<Rightarrow> Inl (ErrWrap ''guacamole: marshal request body'' err)
      | Inr bodyReader \<Rightarrow>
          (case http_NewRequest L method (baseURL c @ path) bodyReader of
             Inl err \<Rightarrow> Inl (ErrWrap ''guacamole: build request'' err)
           | Inr req \<Rightarrow>
               let req1 = (if body \<noteq> None
                           then Header_Set ''Content-Type'' ''application/json'' req else req);
                   req2 = (if authToken c \<noteq> ''''
                           then Header_Set ''Guacamole-Token'' (authToken c) req1 else req1)
               in Inr req2))"

definition Client_do ::
  "stdlib \<Rightarrow> ('b \<Rightarrow> goerror + string) \<Rightarrow> Client \<Rightarrow> string \<Rightarrow> string \<Rightarrow> 'b option
     \<Rightarrow> request option \<times> (goerror + response)" where
  "Client_do L marshal c method path body =
     (case do_request L marshal c method path body of
        Inl err \<Rightarrow> (None, Inl err)
      | Inr req \<Rightarrow>
          (Some req,
           case httpClient c req of
             Inl err \<Rightarrow> Inl (ErrWrap (''guacamole: '' @ method @ '' '' @ path) err)
           | Inr resp \<Rightarrow>
               if StatusCode resp < 200 \<or> StatusCode resp \<ge> 300
               then Inl (ErrAPI (parseError L resp))
               else Inr resp))"

section \<open>Authentication (client.go)\<close>

text \<open>
  \<^verbatim>\<open>json.NewDecoder(resp.Body).Decode(&auth)\<close> into a zero \<^verbatim>\<open>AuthResponse\<close>
  (\<^verbatim>\<open>authToken\<close>, \<^verbatim>\<open>username\<close>, \<^verbatim>\<open>dataSource\<close> strings,
  \<^verbatim>\<open>availableDataSources\<close> a slice of strings). Members are matched and stored as
  for \<^verbatim>\<open>APIError\<close>; an array is stored element by element (\<^verbatim>\<open>null\<close> leaves the
  zero string), \<^verbatim>\<open>null\<close> for the slice gives the nil slice. A read error or a
  malformed stream is an error.
\<close>

record AuthResponse =
  AuthToken :: string
  Username :: string
  DataSource :: string
  AvailableDataSources :: "string list"

datatype AuthResponse_field = FAuthToken | FUsername | FDataSource | FAvailableDataSources

definition AuthResponse_field_of :: "stdlib \<Rightarrow> string \<Rightarrow> AuthResponse_field option" where
  "AuthResponse_field_of L key =
     (if key = ''authToken'' then Some FAuthToken
      else if key = ''username'' then Some FUsername
      else if key = ''dataSource'' then Some FDataSource
      else if key = ''availableDataSources'' then Some FAvailableDataSources
      else if json_foldName L key = json_foldName L ''authToken'' then Some FAuthToken
      else if json_foldName L key = json_foldName L ''username'' then Some FUsername
      else if json_foldName L key = json_foldName L ''dataSource'' then Some FDataSource
      else if json_foldName L key = json_foldName L ''availableDataSources''
        then Some FAvailableDataSources
      else None)"

fun string_elems :: "json list \<Rightarrow> bool \<times> string list" where
  "string_elems [] = (False, [])"
| "string_elems (v # vs) =
     (case string_elems vs of
        (bad, ss) \<Rightarrow>
          (case v of
             JString s \<Rightarrow> (bad, s # ss)
           | JNull \<Rightarrow> (bad, '''' # ss)
           | _ \<Rightarrow> (True, '''' # ss)))"

fun AuthResponse_store ::
  "AuthResponse_field \<Rightarrow> json \<Rightarrow> goerror option \<times> AuthResponse \<Rightarrow> goerror option \<times> AuthResponse" where
  "AuthResponse_store f JNull (err, a) =
     (if f = FAvailableDataSources then (err, a\<lparr>AvailableDataSources := []\<rparr>) else (err, a))"
| "AuthResponse_store FAuthToken (JString s) (err, a) = (err, a\<lparr>AuthToken := s\<rparr>)"
| "AuthResponse_store FUsername (JString s) (err, a) = (err, a\<lparr>Username := s\<rparr>)"
| "AuthResponse_store FDataSource (JString s) (err, a) = (err, a\<lparr>DataSource := s\<rparr>)"
| "AuthResponse_store FAvailableDataSources (JArray vs) (err, a) =
     (case string_elems vs of
        (bad, ss) \<Rightarrow>
          ((if bad then first_error err ErrJSONType else err), a\<lparr>AvailableDataSources := ss\<rparr>))"
| "AuthResponse_store f v (err, a) = (first_error err ErrJSONType, a)"

definition AuthResponse_member ::
  "stdlib \<Rightarrow> string \<times> json \<Rightarrow> goerror option \<times> AuthResponse \<Rightarrow> goerror option \<times> AuthResponse" where
  "AuthResponse_member L kv st =
     (case AuthResponse_field_of L (fst kv) of
        None \<Rightarrow> st
      | Some f \<Rightarrow> AuthResponse_store f (snd kv) st)"

definition json_Decode_AuthResponse :: "stdlib \<Rightarrow> goerror + string \<Rightarrow> goerror + AuthResponse" where
  "json_Decode_AuthResponse L body =
     (let auth = \<lparr>AuthToken = '''', Username = '''', DataSource = '''', AvailableDataSources = []\<rparr> in
      case body of
        Inl err \<Rightarrow> Inl err
      | Inr text \<Rightarrow>
          (case json_first L text of
             None \<Rightarrow> Inl ErrJSONSyntax
           | Some JNull \<Rightarrow> Inr auth
           | Some (JObject kvs) \<Rightarrow>
               (case fold (AuthResponse_member L) kvs (None, auth) of
                  (Some err, a) \<Rightarrow> Inl err
                | (None, a) \<Rightarrow> Inr a)
           | Some other \<Rightarrow> Inl ErrJSONType))"

text \<open>
  \<^verbatim>\<open>Client.Authenticate\<close>. \<open>auth_request\<close> is the request it builds: a POST to
  \<^verbatim>\<open>baseURL + "/api/tokens"\<close> with the form \<^verbatim>\<open>url.Values{username, password}\<close>
  encoded (keys in ascending order) and the form content type.
  \<^verbatim>\<open>
      resp, err := c.httpClient.Do(req)
      if err != nil { return fmt.Errorf("guacamole: auth request: %w", err) }
      if resp.StatusCode != http.StatusOK { return c.parseError(resp) }
      var auth AuthResponse
      if err := json.NewDecoder(resp.Body).Decode(&auth); err != nil {
          return fmt.Errorf("guacamole: decode auth response: %w", err)
      }
      c.authToken = auth.AuthToken
      c.dataSource = auth.DataSource
      return nil
  \<close>
  The function returns the error (\<open>None\<close> for nil) and the client after the call.
\<close>

definition auth_request :: "stdlib \<Rightarrow> Client \<Rightarrow> string \<Rightarrow> string \<Rightarrow> goerror + request" where
  "auth_request L c username password =
     (case http_NewRequest L ''POST'' (baseURL c @ ''/api/tokens'')
             (Some (''password='' @ url_QueryEscape L password
                    @ ''&username='' @ url_QueryEscape L username)) of
        Inl err \<Rightarrow> Inl err
      | Inr req \<Rightarrow> Inr (Header_Set ''Content-Type'' ''application/x-www-form-urlencoded'' req))"

definition Authenticate ::
  "stdlib \<Rightarrow> Client \<Rightarrow> string \<Rightarrow> string \<Rightarrow> goerror option \<times> Client" where
  "Authenticate L c username password =
     (case auth_request L c username password of
        Inl err \<Rightarrow> (Some (ErrWrap ''guacamole: build auth request'' err), c)
      | Inr req \<Rightarrow>
          (case httpClient c req of
             Inl err \<Rightarrow> (Some (ErrWrap ''guacamole: auth request'' err), c)
           | Inr resp \<Rightarrow>
               if StatusCode resp \<noteq> 200 then (Some (ErrAPI (parseError L resp)), c)
               else
                 (case json_Decode_AuthResponse L (Body resp) of
                    Inl err \<Rightarrow> (Some (ErrWrap ''guacamole: decode auth response'' err), c)
                  | Inr auth \<Rightarrow>
                      (None, c\<lparr>authToken := AuthToken auth, dataSource := DataSource auth\<rparr>))))"

section \<open>Notions used to state the properties\<close>

text \<open>
  A JSON value is a string or \<^verbatim>\<open>null\<close>; the pointer such a member leaves in the
  raw map; the value an object gives a key (the last member with that key); and
  the value an object gives a struct field (the last member whose key names it);
  and a member of a login response whose value has the JSON type of the field it
  names (any member that names no field).
\<close>

definition string_or_null :: "json \<Rightarrow> bool" where
  "string_or_null v = (case v of JNull \<Rightarrow> True | JString s \<Rightarrow> True | _ \<Rightarrow> False)"

fun member_ptr :: "json \<Rightarrow> string option" where
  "member_ptr (JString s) = Some s"
| "member_ptr v = None"

definition member_value :: "(string \<times> json) list \<Rightarrow> string \<Rightarrow> json option" where
  "member_value kvs k = map_of (rev kvs) k"

definition AuthResponse_typed :: "stdlib \<Rightarrow> string \<times> json \<Rightarrow> bool" where
  "AuthResponse_typed L kv =
     (case AuthResponse_field_of L (fst kv) of
        None \<Rightarrow> True
      | Some f \<Rightarrow>
          (if f = FAvailableDataSources
           then (case snd kv of
                   JNull \<Rightarrow> True | JArray vs \<Rightarrow> list_all string_or_null vs | _ \<Rightarrow> False)
           else string_or_null (snd kv)))"

definition field_member :: "(string \<Rightarrow> bool) \<Rightarrow> (string \<times> json) list \<Rightarrow> json option" where
  "field_member names kvs =
     (case filter (\<lambda>kv. names (fst kv)) kvs of [] \<Rightarrow> None | m # ms \<Rightarrow> Some (snd (last (m # ms))))"

section \<open>Concrete inputs\<close>

text \<open>
  An instance of the library parameters for evaluating the model on concrete
  inputs: it reads the JSON texts of the examples below (and takes every other
  text as malformed), quotes a string by putting it between double quotes, and
  knows a few status texts.
\<close>

definition sample_json :: "string \<Rightarrow> json option" where
  \<open>sample_json text =
     (if text = ''{"guac-full-name":null,"guac-organization":"ACME"}''
        then Some (JObject [(''guac-full-name'', JNull), (''guac-organization'', JString ''ACME'')])
      else if text = ''{"guac-full-name":null}''
        then Some (JObject [(''guac-full-name'', JNull)])
      else if text = ''{"guac-full-name":""}''
        then Some (JObject [(''guac-full-name'', JString [])])
      else if text = ''{"message":"Not found","type":"NOT_FOUND"}''
        then Some (JObject [(''message'', JString ''Not found''), (''type'', JString ''NOT_FOUND'')])
      else if text = ''{"message":"Invalid credentials.","type":"PERMISSION_DENIED"}''
        then Some (JObject [(''message'', JString ''Invalid credentials.''),
                            (''type'', JString ''PERMISSION_DENIED'')])
      else if text = ''{"authToken":"T","dataSource":"postgresql"}''
        then Some (JObject [(''authToken'', JString ''T''), (''dataSource'', JString ''postgresql'')])
      else None)\<close>

definition sample_quote :: "string \<Rightarrow> string" where
  \<open>sample_quote s = ''"'' @ s @ ''"''\<close>

definition sample_StatusText :: "int \<Rightarrow> string" where
  "sample_StatusText code =
     (if code = 204 then ''No Content'' else if code = 403 then ''Forbidden''
      else if code = 404 then ''Not Found'' else if code = 503 then ''Service Unavailable''
      else '''')"

definition sample_stdlib :: stdlib where
  "sample_stdlib =
     \<lparr>json_syntax = sample_json, json_first = sample_json, json_foldName = (\<lambda>s. s),
      json_quote = sample_quote, http_StatusText = sample_StatusText,
      url_valid = (\<lambda>u. True), url_QueryEscape = (\<lambda>s. s)\<rparr>"

text \<open>
  A client whose transport answers every request with the same response, holding
  the session of an earlier login.
\<close>

definition sample_client :: "response \<Rightarrow> Client" where
  "sample_client resp =
     \<lparr>baseURL = ''http://localhost:8080/guacamole'', httpClient = (\<lambda>req. Inr resp),
      authToken = ''test-token'', dataSource = ''postgresql''\<rparr>"

text \<open>Responses of the server, and \<^verbatim>\<open>json.Marshal\<close> for a body that is its own JSON text.\<close>

definition sample_not_found :: response where
  \<open>sample_not_found =
     \<lparr>StatusCode = 404, Body = Inr ''{"message":"Not found","type":"NOT_FOUND"}''\<rparr>\<close>

definition sample_unavailable :: response where
  "sample_unavailable = \<lparr>StatusCode = 503, Body = Inr ''Service Unavailable''\<rparr>"

definition sample_forbidden :: response where
  \<open>sample_forbidden =
     \<lparr>StatusCode = 403,
      Body = Inr ''{"message":"Invalid credentials.","type":"PERMISSION_DENIED"}''\<rparr>\<close>

definition sample_login :: response where
  \<open>sample_login =
     \<lparr>StatusCode = 200, Body = Inr ''{"authToken":"T","dataSource":"postgresql"}''\<rparr>\<close>

definition sample_no_content :: response where
  "sample_no_content = \<lparr>StatusCode = 204, Body = Inr []\<rparr>"

definition sample_marshal :: "string \<Rightarrow> goerror + string" where
  "sample_marshal b = Inr b"

section \<open>Properties of the patch-operation builders\<close>

text \<open>
  C3. Every patch-operation builder returns a descriptor whose path is the fixed
  template of its edit kind (the identifier appended to the collection prefix; the
  bare \<^verbatim>\<open>/systemPermissions\<close> for system permissions; \<^verbatim>\<open>/\<close> for group
  membership), whose operation is \<^verbatim>\<open>add\<close> for the Add builders and
  \<^verbatim>\<open>remove\<close> for the Remove builders, and whose value is the permission name
  (the member identifier for group membership).
\<close>

theorem patch_builders_template:
  "AddConnectionPermission i p = \<lparr>Op = ''add'', Path = ''/connectionPermissions/'' @ i, Value = p\<rparr>
   \<and> RemoveConnectionPermission i p = \<lparr>Op = ''remove'', Path = ''/connectionPermissions/'' @ i, Value = p\<rparr>
   \<and> AddConnectionGroupPermission i p = \<lparr>Op = ''add'', Path = ''/connectionGroupPermissions/'' @ i, Value = p\<rparr>
   \<and> RemoveConnectionGroupPermission i p = \<lparr>Op = ''remove'', Path = ''/connectionGroupPermissions/'' @ i, Value = p\<rparr>
   \<and> AddSharingProfilePermission i p = \<lparr>Op = ''add'', Path = ''/sharingProfilePermissions/'' @ i, Value = p\<rparr>
   \<and> RemoveSharingProfilePermission i p = \<lparr>Op = ''remove'', Path = ''/sharingProfilePermissions/'' @ i, Value = p\<rparr>
   \<and> AddUserPermission i p = \<lparr>Op = ''add'', Path = ''/userPermissions/'' @ i, Value = p\<rparr>
   \<and> RemoveUserPermission i p = \<lparr>Op = ''remove'', Path = ''/userPermissions/'' @ i, Value = p\<rparr>
   \<and> AddUserGroupPermission i p = \<lparr>Op = ''add'', Path = ''/userGroupPermissions/'' @ i, Value = p\<rparr>
   \<and> RemoveUserGroupPermission i p = \<lparr>Op = ''remove'', Path = ''/userGroupPermissions/'' @ i, Value = p\<rparr>
   \<and> AddSystemPermission p = \<lparr>Op = ''add'', Path = ''/systemPermissions'', Value = p\<rparr>
   \<and> RemoveSystemPermission p = \<lparr>Op = ''remove'', Path = ''/systemPermissions'', Value = p\<rparr>
   \<and> AddGroupMembership i = \<lparr>Op = ''add'', Path = ''/'', Value = i\<rparr>
   \<and> RemoveGroupMembership i = \<lparr>Op = ''remove'', Path = ''/'', Value = i\<rparr>"
  by (simp add: AddConnectionPermission_def RemoveConnectionPermission_def
      AddConnectionGroupPermission_def RemoveConnectionGroupPermission_def
      AddSharingProfilePermission_def RemoveSharingProfilePermission_def
      AddUserPermission_def RemoveUserPermission_def
      AddUserGroupPermission_def RemoveUserGroupPermission_def
      AddSystemPermission_def RemoveSystemPermission_def
      AddGroupMembership_def RemoveGroupMembership_def)

section \<open>Properties of the nullable attribute map\<close>

text \<open>
  The \<^verbatim>\<open>Self\<close> struct is the one place where an empty attribute map would be
  left out; the client never marshals it (\<^verbatim>\<open>GetSelf\<close> only decodes it).
\<close>

lemma Self_attributes_omitted_when_empty:
  "field_omitted Self_Attributes_tag m = (map_len m = 0)"
  by (simp add: field_omitted_def Self_Attributes_tag_def)


lemma map_of_map_store: "map_of (map_store k v al) = (map_of al)(k \<mapsto> v)"
  by (induction al) (auto simp: fun_eq_iff)

lemma keys_map_store: "fst ` set (map_store k v al) = insert k (fst ` set al)"
  by (induction al) auto

lemma distinct_map_store:
  "distinct (map fst al) \<Longrightarrow> distinct (map fst (map_store k v al))"
  by (induction al) (auto simp: keys_map_store)

lemma raw_member_ok:
  "string_or_null v \<Longrightarrow> raw_member (k, v) (err, raw) = (err, map_store k (member_ptr v) raw)"
  by (cases v) (simp_all add: string_or_null_def)

lemma fold_raw_member:
  "list_all (\<lambda>kv. string_or_null (snd kv)) kvs \<Longrightarrow>
   \<exists>raw'. fold raw_member kvs (err, raw) = (err, raw')
      \<and> (distinct (map fst raw) \<longrightarrow> distinct (map fst raw'))
      \<and> map_of raw' = map_of raw ++ (map_option member_ptr \<circ> map_of (rev kvs))"
proof (induction kvs arbitrary: raw)
  case Nil
  then show ?case by simp
next
  case (Cons kv kvs)
  obtain k v where kv: "kv = (k, v)" by (cases kv)
  from Cons.prems kv have ok: "string_or_null v" and rest: "list_all (\<lambda>kv. string_or_null (snd kv)) kvs"
    by simp_all
  from Cons.IH [OF rest, of "map_store k (member_ptr v) raw"]
  obtain raw' where r: "fold raw_member kvs (err, map_store k (member_ptr v) raw) = (err, raw')"
    and d: "distinct (map fst (map_store k (member_ptr v) raw)) \<longrightarrow> distinct (map fst raw')"
    and m: "map_of raw' = map_of (map_store k (member_ptr v) raw) ++ (map_option member_ptr \<circ> map_of (rev kvs))"
    by blast
  have "fold raw_member (kv # kvs) (err, raw) = (err, raw')"
    using r kv ok by (simp add: raw_member_ok)
  moreover have "distinct (map fst raw) \<longrightarrow> distinct (map fst raw')"
    using d by (simp add: distinct_map_store)
  moreover have "map_of raw' = map_of raw ++ (map_option member_ptr \<circ> map_of (rev (kv # kvs)))"
    unfolding m kv by (auto simp: map_of_map_store fun_eq_iff map_add_def split: option.splits)
  ultimately show ?case by blast
qed

lemma distinct_copy_entry:
  "distinct (map fst acc) \<Longrightarrow> distinct (map fst (copy_entry e acc))"
  by (cases e; cases "snd e") (auto simp: distinct_map_store)

lemma distinct_fold_copy_entry:
  "distinct (map fst acc) \<Longrightarrow> distinct (map fst (fold copy_entry raw acc))"
  by (induction raw arbitrary: acc) (simp_all add: distinct_copy_entry)

lemma map_of_fold_copy_entry:
  "distinct (map fst raw) \<Longrightarrow>
   map_of (fold copy_entry raw acc) k =
     (case map_of raw k of Some (Some s) \<Rightarrow> Some s | _ \<Rightarrow> map_of acc k)"
proof (induction raw arbitrary: acc)
  case Nil
  then show ?case by simp
next
  case (Cons e raw)
  obtain k0 v0 where e: "e = (k0, v0)" by (cases e)
  from Cons.prems e have dr: "distinct (map fst raw)" and nk: "k0 \<notin> fst ` set raw" by auto
  from nk have none: "map_of raw k0 = None" by (simp add: map_of_eq_None_iff)
  show ?case using Cons.IH [OF dr, of "copy_entry e acc"] e none
    by (cases v0) (auto simp: map_of_map_store split: option.splits)
qed

lemma UnmarshalJSON_object_map:
  assumes syn: "json_syntax L data = Some (JObject kvs)"
      and vals: "list_all (\<lambda>kv. string_or_null (snd kv)) kvs"
  shows "\<exists>al. UnmarshalJSON L m data = (None, Some al)
           \<and> (\<forall>k. map_of al k =
                 (case member_value kvs k of Some (JString s) \<Rightarrow> Some s | _ \<Rightarrow> None))"
proof -
  from fold_raw_member [OF vals, of None "[]"]
  obtain raw where r: "fold raw_member kvs (None, []) = (None, raw)"
    and d: "distinct (map fst raw)"
    and mo: "map_of raw = map_option member_ptr \<circ> map_of (rev kvs)"
    by auto
  have u: "UnmarshalJSON L m data = (None, Some (fold copy_entry raw []))"
    using syn r by (simp add: UnmarshalJSON_def json_Unmarshal_raw_def)
  have "map_of (fold copy_entry raw []) k =
          (case member_value kvs k of Some (JString s) \<Rightarrow> Some s | _ \<Rightarrow> None)" for k
  proof (cases "map_of (rev kvs) k")
    case None
    then show ?thesis
      by (simp add: map_of_fold_copy_entry [OF d] mo member_value_def)
  next
    case (Some v)
    then show ?thesis
      by (cases v) (simp_all add: map_of_fold_copy_entry [OF d] mo member_value_def)
  qed
  with u show ?thesis by blast
qed

text \<open>
  What the loop computes on a JSON object whose values are strings or
  \<^verbatim>\<open>null\<close>: no error, and a map whose keys are exactly the keys with a string
  value, each mapped to its string unchanged. A key whose value is \<^verbatim>\<open>null\<close>
  is skipped by the guard \<^verbatim>\<open>if v != nil\<close>, which has no \<^verbatim>\<open>else\<close> branch: it is
  no key of the result, and only the index expression reads the empty string
  for it, as for any missing key.
\<close>

lemma UnmarshalJSON_strings_kept_nulls_dropped:
  assumes "json_syntax L data = Some (JObject kvs)"
      and "list_all (\<lambda>kv. string_or_null (snd kv)) kvs"
  shows "fst (UnmarshalJSON L m data) = None
     \<and> map_keys (snd (UnmarshalJSON L m data)) = {k. \<exists>s. member_value kvs k = Some (JString s)}
     \<and> (\<forall>k s. member_value kvs k = Some (JString s) \<longrightarrow>
            map_index (snd (UnmarshalJSON L m data)) k = s)
     \<and> (\<forall>k. member_value kvs k = Some JNull \<longrightarrow>
            k \<notin> map_keys (snd (UnmarshalJSON L m data))
            \<and> map_index (snd (UnmarshalJSON L m data)) k = '''')"
proof -
  from UnmarshalJSON_object_map [OF assms, of m]
  obtain al where u: "UnmarshalJSON L m data = (None, Some al)"
    and mo: "\<And>k. map_of al k =
                 (case member_value kvs k of Some (JString s) \<Rightarrow> Some s | _ \<Rightarrow> None)"
    by blast
  have keys: "map_keys (Some al) = {k. \<exists>s. member_value kvs k = Some (JString s)}"
  proof -
    have "fst ` set al = dom (map_of al)" by (simp add: dom_map_of_conv_image_fst)
    also have "\<dots> = {k. \<exists>s. member_value kvs k = Some (JString s)}"
    proof -
      have "(map_of al k \<noteq> None) = (\<exists>s. member_value kvs k = Some (JString s))" for k
      proof (cases "member_value kvs k")
        case None
        then show ?thesis by (simp add: mo)
      next
        case (Some v)
        then show ?thesis by (cases v) (simp_all add: mo)
      qed
      then show ?thesis by (simp add: dom_def)
    qed
    finally show ?thesis by (simp add: map_keys_def)
  qed
  have str: "member_value kvs k = Some (JString s) \<Longrightarrow> map_index (Some al) k = s" for k s
    by (simp add: map_index_def mo)
  have nul: "member_value kvs k = Some JNull \<Longrightarrow> map_index (Some al) k = ''''" for k
    by (simp add: map_index_def mo)
  have nulk: "member_value kvs k = Some JNull \<Longrightarrow> k \<notin> map_keys (Some al)" for k
    unfolding keys by simp
  show ?thesis
    unfolding u using keys str nul nulk by simp
qed

lemma UnmarshalJSON_strings_kept_nulls_dropped_example:
  "list_all (\<lambda>kv. string_or_null (snd kv))
      [(''guac-full-name'', JNull), (''guac-organization'', JString ''ACME'')]
   \<and> fst (UnmarshalJSON sample_stdlib None
        ''{\"guac-full-name\":null,\"guac-organization\":\"ACME\"}'') = None
   \<and> map_index (snd (UnmarshalJSON sample_stdlib None
        ''{\"guac-full-name\":null,\"guac-organization\":\"ACME\"}'')) ''guac-organization'' = ''ACME''
   \<and> map_index (snd (UnmarshalJSON sample_stdlib None
        ''{\"guac-full-name\":null,\"guac-organization\":\"ACME\"}'')) ''guac-full-name'' = ''''
   \<and> map_keys (snd (UnmarshalJSON sample_stdlib None
        ''{\"guac-full-name\":null,\"guac-organization\":\"ACME\"}'')) = {''guac-organization''}"
  using UnmarshalJSON_strings_kept_nulls_dropped
    [of sample_stdlib "''{\"guac-full-name\":null,\"guac-organization\":\"ACME\"}''"
        "[(''guac-full-name'', JNull), (''guac-organization'', JString ''ACME'')]" None]
  by (simp add: UnmarshalJSON_def json_Unmarshal_raw_def sample_stdlib_def sample_json_def
      string_or_null_def map_index_def map_keys_def)

text \<open>
  C2. Decoding should keep every key of the input object, a \<^verbatim>\<open>null\<close> value
  becoming the empty string; the doc comment of the type says that \<^verbatim>\<open>null\<close>
  values are converted to empty strings, whichever keys the server returns as
  \<^verbatim>\<open>null\<close> and whichever as \<^verbatim>\<open>""\<close>. The code does not do so. Decoding
  \<^verbatim>\<open>{"guac-full-name":null}\<close> gives the allocated empty map: the key of the
  input is no key of the result and the length is zero. Decoding
  \<^verbatim>\<open>{"guac-full-name":""}\<close> gives the map with that key and the empty string,
  so the two inputs, which are to give the same map, give different ones.
\<close>

theorem UnmarshalJSON_null_key_not_preserved:
  "json_syntax sample_stdlib ''{\"guac-full-name\":null}'' = Some (JObject [(''guac-full-name'', JNull)])
   \<and> UnmarshalJSON sample_stdlib None ''{\"guac-full-name\":null}'' = (None, Some [])
   \<and> ''guac-full-name'' \<notin> map_keys (snd (UnmarshalJSON sample_stdlib None ''{\"guac-full-name\":null}''))
   \<and> map_len (snd (UnmarshalJSON sample_stdlib None ''{\"guac-full-name\":null}'')) = 0
   \<and> UnmarshalJSON sample_stdlib None ''{\"guac-full-name\":\"\"}''
         = (None, Some [(''guac-full-name'', [])])
   \<and> UnmarshalJSON sample_stdlib None ''{\"guac-full-name\":null}''
         \<noteq> UnmarshalJSON sample_stdlib None ''{\"guac-full-name\":\"\"}''"
  by (simp add: UnmarshalJSON_def json_Unmarshal_raw_def sample_stdlib_def sample_json_def
      map_keys_def map_len_def)

section \<open>Properties of the error predicates\<close>

lemma errors_As_chain: "errors_As e = Some a \<longleftrightarrow> ErrAPI a \<in> set (error_chain e)"
  by (induction e) auto

text \<open>
  C4. \<^verbatim>\<open>IsNotFound(err)\<close> is true exactly when the error chain of \<open>err\<close> holds an
  \<^verbatim>\<open>*APIError\<close> whose type is \<^verbatim>\<open>NOT_FOUND\<close>, and \<^verbatim>\<open>IsPermissionDenied(err)\<close>
  exactly when it holds one whose type is \<^verbatim>\<open>PERMISSION_DENIED\<close>; both are false
  for the nil error, and wrapping an error with added context changes neither.
\<close>

theorem IsNotFound_IsPermissionDenied_chain:
  "(IsNotFound err \<longleftrightarrow>
      (\<exists>e a. err = Some e \<and> ErrAPI a \<in> set (error_chain e) \<and> Type a = ''NOT_FOUND''))
   \<and> (IsPermissionDenied err \<longleftrightarrow>
      (\<exists>e a. err = Some e \<and> ErrAPI a \<in> set (error_chain e) \<and> Type a = ''PERMISSION_DENIED''))
   \<and> \<not> IsNotFound None
   \<and> \<not> IsPermissionDenied None
   \<and> IsNotFound (Some (ErrWrap ctx e')) = IsNotFound (Some e')
   \<and> IsPermissionDenied (Some (ErrWrap ctx e')) = IsPermissionDenied (Some e')"
proof -
  have nf: "IsNotFound err \<longleftrightarrow>
      (\<exists>e a. err = Some e \<and> ErrAPI a \<in> set (error_chain e) \<and> Type a = ''NOT_FOUND'')"
  proof (cases err)
    case None
    then show ?thesis by (simp add: IsNotFound_def)
  next
    case (Some e)
    show ?thesis
    proof (cases "errors_As e")
      case None
      then have "\<And>a. ErrAPI a \<notin> set (error_chain e)"
        using errors_As_chain [of e] by simp
      with None Some show ?thesis by (simp add: IsNotFound_def)
    next
      case (Some a)
      then have "\<And>b. ErrAPI b \<in> set (error_chain e) \<longleftrightarrow> b = a"
        by (auto simp: errors_As_chain [symmetric])
      with Some \<open>err = Some e\<close> show ?thesis
        by (simp add: IsNotFound_def APIError_IsNotFound_def ErrTypeNotFound_def)
    qed
  qed
  have pd: "IsPermissionDenied err \<longleftrightarrow>
      (\<exists>e a. err = Some e \<and> ErrAPI a \<in> set (error_chain e) \<and> Type a = ''PERMISSION_DENIED'')"
  proof (cases err)
    case None
    then show ?thesis by (simp add: IsPermissionDenied_def)
  next
    case (Some e)
    show ?thesis
    proof (cases "errors_As e")
      case None
      then have "\<And>a. ErrAPI a \<notin> set (error_chain e)"
        using errors_As_chain [of e] by simp
      with None Some show ?thesis by (simp add: IsPermissionDenied_def)
    next
      case (Some a)
      then have "\<And>b. ErrAPI b \<in> set (error_chain e) \<longleftrightarrow> b = a"
        by (auto simp: errors_As_chain [symmetric])
      with Some \<open>err = Some e\<close> show ?thesis
        by (simp add: IsPermissionDenied_def APIError_IsPermissionDenied_def
            ErrTypePermissionDenied_def)
    qed
  qed
  have rest: "\<not> IsNotFound None \<and> \<not> IsPermissionDenied None
     \<and> IsNotFound (Some (ErrWrap ctx e')) = IsNotFound (Some e')
     \<and> IsPermissionDenied (Some (ErrWrap ctx e')) = IsPermissionDenied (Some e')"
    by (simp add: IsNotFound_def IsPermissionDenied_def)
  from nf pd rest show ?thesis by blast
qed

theorem IsNotFound_wrapped_witness:
  "IsNotFound (Some (ErrWrap ''guacamole: get connection 99''
      (ErrAPI \<lparr>Message = ''Not found'', Type = ''NOT_FOUND'', HTTPStatus = 404\<rparr>)))
   \<and> \<not> IsPermissionDenied (Some (ErrWrap ''guacamole: get connection 99''
      (ErrAPI \<lparr>Message = ''Not found'', Type = ''NOT_FOUND'', HTTPStatus = 404\<rparr>)))
   \<and> \<not> IsNotFound (Some (ErrAPI \<lparr>Message = ''x'', Type = ''NOT_FOUND_'', HTTPStatus = 404\<rparr>))"
  using IsNotFound_IsPermissionDenied_chain
    [of "Some (ErrWrap ''guacamole: get connection 99''
      (ErrAPI \<lparr>Message = ''Not found'', Type = ''NOT_FOUND'', HTTPStatus = 404\<rparr>))"
      "''guacamole: get connection 99''"
      "ErrAPI \<lparr>Message = ''Not found'', Type = ''NOT_FOUND'', HTTPStatus = 404\<rparr>"]
  by (simp add: IsNotFound_def IsPermissionDenied_def APIError_IsNotFound_def
      APIError_IsPermissionDenied_def ErrTypeNotFound_def ErrTypePermissionDenied_def)

section \<open>Properties of the request pipeline\<close>

lemma field_member_snoc:
  "field_member names (kvs @ [kv]) = (if names (fst kv) then Some (snd kv) else field_member names kvs)"
  by (cases "filter (\<lambda>kv. names (fst kv)) kvs") (simp_all add: field_member_def)

lemma field_member_Nil: "field_member names [] = None"
  by (simp add: field_member_def)

lemma APIError_member_status:
  "HTTPStatus (snd (APIError_member L kv st)) = HTTPStatus (snd st)"
proof (cases "APIError_field_of L (fst kv)")
  case None
  then show ?thesis by (simp add: APIError_member_def)
next
  case (Some f)
  then show ?thesis
    by (cases f; cases "snd kv") (simp_all add: APIError_member_def)
qed

lemma APIError_member_other:
  "APIError_field_of L (fst kv) \<noteq> Some FMessage \<Longrightarrow>
     Message (snd (APIError_member L kv st)) = Message (snd st)"
  "APIError_field_of L (fst kv) \<noteq> Some FType \<Longrightarrow>
     Type (snd (APIError_member L kv st)) = Type (snd st)"
proof -
  show "APIError_field_of L (fst kv) \<noteq> Some FMessage \<Longrightarrow>
     Message (snd (APIError_member L kv st)) = Message (snd st)"
  proof (cases "APIError_field_of L (fst kv)")
    case None
    then show ?thesis by (simp add: APIError_member_def)
  next
    case (Some f)
    assume "APIError_field_of L (fst kv) \<noteq> Some FMessage"
    with Some have "f = FType" by (cases f) simp_all
    with Some show ?thesis by (cases "snd kv") (simp_all add: APIError_member_def)
  qed
  show "APIError_field_of L (fst kv) \<noteq> Some FType \<Longrightarrow>
     Type (snd (APIError_member L kv st)) = Type (snd st)"
  proof (cases "APIError_field_of L (fst kv)")
    case None
    then show ?thesis by (simp add: APIError_member_def)
  next
    case (Some f)
    assume "APIError_field_of L (fst kv) \<noteq> Some FType"
    with Some have "f = FMessage" by (cases f) simp_all
    with Some show ?thesis by (cases "snd kv") (simp_all add: APIError_member_def)
  qed
qed

lemma APIError_member_typed:
  "APIError_field_of L (fst kv) = None \<or> string_or_null (snd kv) \<Longrightarrow>
     fst (APIError_member L kv st) = fst st"
proof (cases "APIError_field_of L (fst kv)")
  case None
  then show ?thesis by (simp add: APIError_member_def)
next
  case (Some f)
  assume "APIError_field_of L (fst kv) = None \<or> string_or_null (snd kv)"
  with Some have "string_or_null (snd kv)" by simp
  with Some show ?thesis
    by (cases "snd kv") (simp_all add: APIError_member_def string_or_null_def)
qed

lemma fold_APIError_status:
  "HTTPStatus (snd (fold (APIError_member L) kvs st)) = HTTPStatus (snd st)"
  by (induction kvs arbitrary: st) (simp_all add: APIError_member_status)

lemma fold_APIError_typed:
  "list_all (\<lambda>kv. APIError_field_of L (fst kv) = None \<or> string_or_null (snd kv)) kvs \<Longrightarrow>
     fst (fold (APIError_member L) kvs st) = fst st"
  by (induction kvs arbitrary: st) (simp_all add: APIError_member_typed)

lemma fold_APIError_Message:
  "field_member (\<lambda>k. APIError_field_of L k = Some FMessage) kvs = Some (JString s) \<Longrightarrow>
     Message (snd (fold (APIError_member L) kvs st)) = s"
proof (induction kvs rule: rev_induct)
  case Nil
  then show ?case by (simp add: field_member_Nil)
next
  case (snoc kv kvs)
  show ?case
  proof (cases "APIError_field_of L (fst kv) = Some FMessage")
    case True
    with snoc.prems have "snd kv = JString s" by (simp add: field_member_snoc)
    with True show ?thesis by (simp add: APIError_member_def)
  next
    case False
    with snoc.prems have "field_member (\<lambda>k. APIError_field_of L k = Some FMessage) kvs = Some (JString s)"
      by (simp add: field_member_snoc)
    with snoc.IH False show ?thesis by (simp add: APIError_member_other)
  qed
qed

lemma fold_APIError_Type:
  "field_member (\<lambda>k. APIError_field_of L k = Some FType) kvs = Some (JString s) \<Longrightarrow>
     Type (snd (fold (APIError_member L) kvs st)) = s"
proof (induction kvs rule: rev_induct)
  case Nil
  then show ?case by (simp add: field_member_Nil)
next
  case (snoc kv kvs)
  show ?case
  proof (cases "APIError_field_of L (fst kv) = Some FType")
    case True
    with snoc.prems have "snd kv = JString s" by (simp add: field_member_snoc)
    with True show ?thesis by (simp add: APIError_member_def)
  next
    case False
    with snoc.prems have "field_member (\<lambda>k. APIError_field_of L k = Some FType) kvs = Some (JString s)"
      by (simp add: field_member_snoc)
    with snoc.IH False show ?thesis by (simp add: APIError_member_other)
  qed
qed

lemma json_Unmarshal_APIError_status:
  "HTTPStatus (snd (json_Unmarshal_APIError L bs a)) = HTTPStatus a"
proof (cases "json_syntax L bs")
  case None
  then show ?thesis by (simp add: json_Unmarshal_APIError_def)
next
  case (Some v)
  then show ?thesis
    by (cases v) (simp_all add: json_Unmarshal_APIError_def fold_APIError_status)
qed

lemma parseError_status: "HTTPStatus (parseError L resp) = StatusCode resp"
proof (cases "Body resp")
  case (Inl err)
  then show ?thesis by (simp add: parseError_def Let_def)
next
  case (Inr bs)
  let ?a0 = "\<lparr>Message = [], Type = [], HTTPStatus = StatusCode resp\<rparr>"
  obtain err a where u: "json_Unmarshal_APIError L bs ?a0 = (err, a)"
    by (cases "json_Unmarshal_APIError L bs ?a0")
  with json_Unmarshal_APIError_status [of L bs ?a0] have "HTTPStatus a = StatusCode resp"
    by simp
  with Inr u show ?thesis
    by (cases err) (simp_all add: parseError_def Let_def)
qed

lemma parseError_json:
  assumes body: "Body resp = Inr bs" and ne: "bs \<noteq> []"
      and syn: "json_syntax L bs = Some (JObject kvs)"
      and typed: "list_all (\<lambda>kv. APIError_field_of L (fst kv) = None \<or> string_or_null (snd kv)) kvs"
      and msg: "field_member (\<lambda>k. APIError_field_of L k = Some FMessage) kvs = Some (JString m)"
      and ftype: "field_member (\<lambda>k. APIError_field_of L k = Some FType) kvs = Some (JString t)"
  shows "parseError L resp = \<lparr>Message = m, Type = t, HTTPStatus = StatusCode resp\<rparr>"
proof -
  let ?a0 = "\<lparr>Message = [], Type = [], HTTPStatus = StatusCode resp\<rparr>"
  obtain err a where f: "fold (APIError_member L) kvs (None, ?a0) = (err, a)"
    by (cases "fold (APIError_member L) kvs (None, ?a0)")
  have "err = None" using fold_APIError_typed [OF typed, of "(None, ?a0)"] f by simp
  moreover have "Message a = m" using fold_APIError_Message [OF msg, of "(None, ?a0)"] f by simp
  moreover have "Type a = t" using fold_APIError_Type [OF ftype, of "(None, ?a0)"] f by simp
  moreover have "HTTPStatus a = StatusCode resp"
    using fold_APIError_status [of L kvs "(None, ?a0)"] f by simp
  ultimately have "err = None \<and> a = \<lparr>Message = m, Type = t, HTTPStatus = StatusCode resp\<rparr>"
    by simp
  with f body ne syn show ?thesis
    by (simp add: parseError_def json_Unmarshal_APIError_def Let_def)
qed

lemma parseError_not_json:
  assumes body: "Body resp = Inr bs" and ne: "bs \<noteq> []"
      and syn: "json_syntax L bs = None"
  shows "parseError L resp = \<lparr>Message = bs, Type = '''', HTTPStatus = StatusCode resp\<rparr>"
  using assms by (simp add: parseError_def json_Unmarshal_APIError_def Let_def)

text \<open>
  C5. When the transport answers a request of \<^verbatim>\<open>do\<close> with a status outside
  [200,300), \<^verbatim>\<open>do\<close> returns the \<^verbatim>\<open>*APIError\<close> that \<^verbatim>\<open>parseError\<close> builds, whose
  HTTP status is the status of the response. If the body is the text of a JSON
  object that carries string \<^verbatim>\<open>message\<close> and \<^verbatim>\<open>type\<close> fields, the error has
  exactly that message and type; if the body is not empty and is not JSON, the
  message is the body text and the type is empty.
\<close>

theorem do_classifies_error_response:
  assumes "do_request L marshal c method path body = Inr req"
      and "httpClient c req = Inr resp"
      and "StatusCode resp < 200 \<or> 300 \<le> StatusCode resp"
  shows "snd (Client_do L marshal c method path body) = Inl (ErrAPI (parseError L resp))
     \<and> HTTPStatus (parseError L resp) = StatusCode resp
     \<and> (Body resp = Inr bs \<and> bs \<noteq> [] \<and> json_syntax L bs = Some (JObject kvs)
          \<and> list_all (\<lambda>kv. APIError_field_of L (fst kv) = None \<or> string_or_null (snd kv)) kvs
          \<and> field_member (\<lambda>k. APIError_field_of L k = Some FMessage) kvs = Some (JString m)
          \<and> field_member (\<lambda>k. APIError_field_of L k = Some FType) kvs = Some (JString t)
        \<longrightarrow> parseError L resp = \<lparr>Message = m, Type = t, HTTPStatus = StatusCode resp\<rparr>)
     \<and> (Body resp = Inr bs \<and> bs \<noteq> [] \<and> json_syntax L bs = None
        \<longrightarrow> parseError L resp = \<lparr>Message = bs, Type = '''', HTTPStatus = StatusCode resp\<rparr>)"
proof -
  have "snd (Client_do L marshal c method path body) = Inl (ErrAPI (parseError L resp))"
    using assms by (auto simp: Client_do_def)
  then show ?thesis
    using parseError_status [of L resp] parseError_json [of resp bs L kvs m t]
      parseError_not_json [of resp bs L]
    by blast
qed

theorem do_classifies_error_response_witness:
  "snd (Client_do sample_stdlib sample_marshal (sample_client sample_not_found) ''GET''
          ''/api/session/data/postgresql/connections/99'' None)
     = Inl (ErrAPI \<lparr>Message = ''Not found'', Type = ''NOT_FOUND'', HTTPStatus = 404\<rparr>)
   \<and> snd (Client_do sample_stdlib sample_marshal (sample_client sample_unavailable) ''GET''
          ''/api/session/data/postgresql/users'' None)
     = Inl (ErrAPI \<lparr>Message = ''Service Unavailable'', Type = '''', HTTPStatus = 503\<rparr>)"
proof -
  let ?R = "\<lambda>p. \<lparr>req_method = ''GET'', req_url = ''http://localhost:8080/guacamole'' @ p,
               req_header = [(''Guacamole-Token'', ''test-token'')], req_body = None\<rparr>"
  have r1: "do_request sample_stdlib sample_marshal (sample_client sample_not_found) ''GET''
          ''/api/session/data/postgresql/connections/99'' None
        = Inr (?R ''/api/session/data/postgresql/connections/99'')"
    by (simp add: do_request_def http_NewRequest_def Header_Set_def sample_client_def
        sample_stdlib_def)
  have t1: "httpClient (sample_client sample_not_found)
              (?R ''/api/session/data/postgresql/connections/99'') = Inr sample_not_found"
    by (simp add: sample_client_def)
  have s1: "StatusCode sample_not_found < 200 \<or> 300 \<le> StatusCode sample_not_found"
    by (simp add: sample_not_found_def)
  have r2: "do_request sample_stdlib sample_marshal (sample_client sample_unavailable) ''GET''
          ''/api/session/data/postgresql/users'' None
        = Inr (?R ''/api/session/data/postgresql/users'')"
    by (simp add: do_request_def http_NewRequest_def Header_Set_def sample_client_def
        sample_stdlib_def)
  have t2: "httpClient (sample_client sample_unavailable)
              (?R ''/api/session/data/postgresql/users'') = Inr sample_unavailable"
    by (simp add: sample_client_def)
  have s2: "StatusCode sample_unavailable < 200 \<or> 300 \<le> StatusCode sample_unavailable"
    by (simp add: sample_unavailable_def)
  have j1: "Body sample_not_found = Inr ''{\"message\":\"Not found\",\"type\":\"NOT_FOUND\"}''
      \<and> json_syntax sample_stdlib ''{\"message\":\"Not found\",\"type\":\"NOT_FOUND\"}''
          = Some (JObject [(''message'', JString ''Not found''), (''type'', JString ''NOT_FOUND'')])"
    by (simp add: sample_not_found_def sample_stdlib_def sample_json_def)
  have j2: "Body sample_unavailable = Inr ''Service Unavailable''
      \<and> json_syntax sample_stdlib ''Service Unavailable'' = None"
    by (simp add: sample_unavailable_def sample_stdlib_def sample_json_def)
  from do_classifies_error_response [OF r1 t1 s1,
      of "''{\"message\":\"Not found\",\"type\":\"NOT_FOUND\"}''"
         "[(''message'', JString ''Not found''), (''type'', JString ''NOT_FOUND'')]"
         "''Not found''" "''NOT_FOUND''"] j1
  have a: "snd (Client_do sample_stdlib sample_marshal (sample_client sample_not_found) ''GET''
          ''/api/session/data/postgresql/connections/99'' None)
     = Inl (ErrAPI \<lparr>Message = ''Not found'', Type = ''NOT_FOUND'', HTTPStatus = 404\<rparr>)"
    by (simp add: field_member_def APIError_field_of_def string_or_null_def sample_not_found_def)
  from do_classifies_error_response [OF r2 t2 s2, of "''Service Unavailable''"] j2
  have b: "snd (Client_do sample_stdlib sample_marshal (sample_client sample_unavailable) ''GET''
          ''/api/session/data/postgresql/users'' None)
     = Inl (ErrAPI \<lparr>Message = ''Service Unavailable'', Type = '''', HTTPStatus = 503\<rparr>)"
    by (simp add: sample_unavailable_def)
  from a b show ?thesis by simp
qed

text \<open>
  C9. On every request that \<^verbatim>\<open>do\<close> hands to the transport, the
  \<^verbatim>\<open>Content-Type\<close> header is \<^verbatim>\<open>application/json\<close> when a body is supplied and
  absent when none is, and the \<^verbatim>\<open>Guacamole-Token\<close> header carries the stored
  token when it is not empty and is absent when it is; no other header is set.
\<close>

theorem do_sets_headers:
  assumes "fst (Client_do L marshal c method path body) = Some req"
  shows "Header_Get req ''Content-Type'' = (if body = None then None else Some ''application/json'')
     \<and> Header_Get req ''Guacamole-Token''
          = (if authToken c = '''' then None else Some (authToken c))
     \<and> fst ` set (req_header req) \<subseteq> {''Content-Type'', ''Guacamole-Token''}"
proof -
  from assms have r: "do_request L marshal c method path body = Inr req"
    by (auto simp: Client_do_def split: sum.splits)
  then show ?thesis
    by (auto simp: do_request_def http_NewRequest_def Header_Set_def Header_Get_def Let_def
        map_of_map_store keys_map_store split: sum.splits option.splits if_splits)
qed

theorem do_sets_headers_witness:
  "Header_Get (the (fst (Client_do sample_stdlib sample_marshal (sample_client sample_no_content)
       ''PUT'' ''/api/session/data/postgresql/users/bob'' (Some ''{}'')))) ''Content-Type''
     = Some ''application/json''
   \<and> Header_Get (the (fst (Client_do sample_stdlib sample_marshal (sample_client sample_no_content)
       ''PUT'' ''/api/session/data/postgresql/users/bob'' (Some ''{}'')))) ''Guacamole-Token''
     = Some ''test-token''
   \<and> Header_Get (the (fst (Client_do sample_stdlib sample_marshal
       ((sample_client sample_no_content)\<lparr>authToken := ''''\<rparr>)
       ''DELETE'' ''/api/session'' None))) ''Content-Type'' = None
   \<and> Header_Get (the (fst (Client_do sample_stdlib sample_marshal
       ((sample_client sample_no_content)\<lparr>authToken := ''''\<rparr>)
       ''DELETE'' ''/api/session'' None))) ''Guacamole-Token'' = None"
proof -
  let ?c = "sample_client sample_no_content"
  let ?d = "(sample_client sample_no_content)\<lparr>authToken := []\<rparr>"
  let ?R1 = "\<lparr>req_method = ''PUT'',
      req_url = ''http://localhost:8080/guacamole/api/session/data/postgresql/users/bob'',
      req_header = [(''Content-Type'', ''application/json''), (''Guacamole-Token'', ''test-token'')],
      req_body = Some ''{}''\<rparr>"
  let ?R2 = "\<lparr>req_method = ''DELETE'', req_url = ''http://localhost:8080/guacamole/api/session'',
      req_header = [], req_body = None\<rparr>"
  have s1: "fst (Client_do sample_stdlib sample_marshal ?c
       ''PUT'' ''/api/session/data/postgresql/users/bob'' (Some ''{}'')) = Some ?R1"
    by (simp add: Client_do_def do_request_def http_NewRequest_def Header_Set_def
        sample_marshal_def sample_stdlib_def sample_client_def)
  have s2: "fst (Client_do sample_stdlib sample_marshal ?d ''DELETE'' ''/api/session'' None)
     = Some ?R2"
    by (simp add: Client_do_def do_request_def http_NewRequest_def Header_Set_def
        sample_marshal_def sample_stdlib_def sample_client_def)
  have a: "authToken ?c = ''test-token'' \<and> authToken ?d = []"
    by (simp add: sample_client_def)
  from do_sets_headers [OF s1] a
  have h1: "Header_Get ?R1 ''Content-Type'' = Some ''application/json''
      \<and> Header_Get ?R1 ''Guacamole-Token'' = Some ''test-token''"
    by simp
  from do_sets_headers [OF s2] a
  have h2: "Header_Get ?R2 ''Content-Type'' = None \<and> Header_Get ?R2 ''Guacamole-Token'' = None"
    by simp
  from h1 h2 show ?thesis
    unfolding s1 s2 option.sel by blast
qed

section \<open>Properties of the resource path builder\<close>

text \<open>The example of the library's documentation for \<^verbatim>\<open>url.PathEscape\<close>.\<close>

lemma url_PathEscape_library_example:
  "url_PathEscape ''my/cool+blog&about,stuff'' = ''my%2Fcool+blog&about%2Cstuff''"
  by (simp add: url_PathEscape_def shouldEscape_def is_alnum_def hex_escape_def upperhex_def)

text \<open>
  C6. \<^verbatim>\<open>dataPath\<close> on the segments \<^verbatim>\<open>users\<close> and \<^verbatim>\<open>bob smith@example.com\<close>, with
  the data source \<^verbatim>\<open>postgresql\<close>: the space becomes \<^verbatim>\<open>%20\<close>, but the \<^verbatim>\<open>@\<close>
  is left as it is, where the claim (and the example in the comment above
  \<^verbatim>\<open>dataPath\<close>, evaluated here as the second input) has \<^verbatim>\<open>%40\<close>. A slash in a
  segment does become \<^verbatim>\<open>%2F\<close>.
\<close>

theorem dataPath_at_sign_not_escaped:
  "dataPath (sample_client sample_no_content) [''users'', ''bob smith@example.com'']
     = ''/api/session/data/postgresql/users/bob%20smith@example.com''
   \<and> dataPath (sample_client sample_no_content) [''users'', ''bob@example.com'']
     = ''/api/session/data/postgresql/users/bob@example.com''
   \<and> dataPath (sample_client sample_no_content) [''users'', ''group/name'']
     = ''/api/session/data/postgresql/users/group%2Fname''"
  by (simp add: dataPath_def sample_client_def path_Join_def path_Clean_def clean_elem_def
      url_PathEscape_def shouldEscape_def is_alnum_def hex_escape_def upperhex_def)

section \<open>Properties of authentication\<close>

lemma string_elems_typed: "list_all string_or_null vs \<Longrightarrow> fst (string_elems vs) = False"
proof (induction vs)
  case Nil
  then show ?case by simp
next
  case (Cons v vs)
  then show ?case
    by (cases v; cases "string_elems vs") (simp_all add: string_or_null_def)
qed

lemma AuthResponse_store_typed:
  assumes "if f = FAvailableDataSources
           then (case v of JNull \<Rightarrow> True | JArray vs \<Rightarrow> list_all string_or_null vs | _ \<Rightarrow> False)
           else string_or_null v"
  shows "fst (AuthResponse_store f v (err, a)) = err"
proof (cases v)
  case (JArray vs)
  with assms have f: "f = FAvailableDataSources" and ok: "list_all string_or_null vs"
    by (auto simp: string_or_null_def split: if_splits)
  from string_elems_typed [OF ok] show ?thesis
    using f JArray by (cases "string_elems vs") simp
qed (use assms in \<open>cases f; simp add: string_or_null_def\<close>)+

lemma AuthResponse_member_typed:
  "AuthResponse_typed L kv \<Longrightarrow> fst (AuthResponse_member L kv st) = fst st"
proof (cases "AuthResponse_field_of L (fst kv)")
  case None
  then show ?thesis by (simp add: AuthResponse_member_def)
next
  case (Some f)
  assume "AuthResponse_typed L kv"
  with Some show ?thesis
    using AuthResponse_store_typed [of f "snd kv" "fst st" "snd st"]
    by (simp add: AuthResponse_member_def AuthResponse_typed_def)
qed

lemma AuthResponse_store_other:
  "f \<noteq> FAuthToken \<Longrightarrow> AuthToken (snd (AuthResponse_store f v st)) = AuthToken (snd st)"
  "f \<noteq> FDataSource \<Longrightarrow> DataSource (snd (AuthResponse_store f v st)) = DataSource (snd st)"
  by (cases f; cases v; cases st; simp split: prod.splits)+

lemma AuthResponse_member_other:
  "AuthResponse_field_of L (fst kv) \<noteq> Some FAuthToken \<Longrightarrow>
     AuthToken (snd (AuthResponse_member L kv st)) = AuthToken (snd st)"
  "AuthResponse_field_of L (fst kv) \<noteq> Some FDataSource \<Longrightarrow>
     DataSource (snd (AuthResponse_member L kv st)) = DataSource (snd st)"
  by (cases "AuthResponse_field_of L (fst kv)";
      simp add: AuthResponse_member_def AuthResponse_store_other)+

lemma AuthResponse_member_string:
  "AuthResponse_field_of L (fst kv) = Some FAuthToken \<Longrightarrow> snd kv = JString s \<Longrightarrow>
     AuthToken (snd (AuthResponse_member L kv st)) = s"
  "AuthResponse_field_of L (fst kv) = Some FDataSource \<Longrightarrow> snd kv = JString s \<Longrightarrow>
     DataSource (snd (AuthResponse_member L kv st)) = s"
  by (cases st; simp add: AuthResponse_member_def)+

lemma fold_AuthResponse_typed:
  "list_all (AuthResponse_typed L) kvs \<Longrightarrow> fst (fold (AuthResponse_member L) kvs st) = fst st"
  by (induction kvs arbitrary: st) (simp_all add: AuthResponse_member_typed)

lemma fold_AuthResponse_AuthToken:
  "field_member (\<lambda>k. AuthResponse_field_of L k = Some FAuthToken) kvs = Some (JString s) \<Longrightarrow>
     AuthToken (snd (fold (AuthResponse_member L) kvs st)) = s"
proof (induction kvs rule: rev_induct)
  case Nil
  then show ?case by (simp add: field_member_Nil)
next
  case (snoc kv kvs)
  show ?case
  proof (cases "AuthResponse_field_of L (fst kv) = Some FAuthToken")
    case True
    with snoc.prems have "snd kv = JString s" by (simp add: field_member_snoc)
    with True show ?thesis by (simp add: AuthResponse_member_string)
  next
    case False
    with snoc.prems
    have "field_member (\<lambda>k. AuthResponse_field_of L k = Some FAuthToken) kvs = Some (JString s)"
      by (simp add: field_member_snoc)
    with snoc.IH False show ?thesis by (simp add: AuthResponse_member_other)
  qed
qed

lemma fold_AuthResponse_DataSource:
  "field_member (\<lambda>k. AuthResponse_field_of L k = Some FDataSource) kvs = Some (JString s) \<Longrightarrow>
     DataSource (snd (fold (AuthResponse_member L) kvs st)) = s"
proof (induction kvs rule: rev_induct)
  case Nil
  then show ?case by (simp add: field_member_Nil)
next
  case (snoc kv kvs)
  show ?case
  proof (cases "AuthResponse_field_of L (fst kv) = Some FDataSource")
    case True
    with snoc.prems have "snd kv = JString s" by (simp add: field_member_snoc)
    with True show ?thesis by (simp add: AuthResponse_member_string)
  next
    case False
    with snoc.prems
    have "field_member (\<lambda>k. AuthResponse_field_of L k = Some FDataSource) kvs = Some (JString s)"
      by (simp add: field_member_snoc)
    with snoc.IH False show ?thesis by (simp add: AuthResponse_member_other)
  qed
qed

lemma json_Decode_AuthResponse_object:
  assumes "json_first L bs = Some (JObject kvs)"
      and "list_all (AuthResponse_typed L) kvs"
      and "field_member (\<lambda>k. AuthResponse_field_of L k = Some FAuthToken) kvs = Some (JString tok)"
      and "field_member (\<lambda>k. AuthResponse_field_of L k = Some FDataSource) kvs = Some (JString src)"
  shows "\<exists>auth. json_Decode_AuthResponse L (Inr bs) = Inr auth
           \<and> AuthToken auth = tok \<and> DataSource auth = src"
proof -
  let ?a0 = "\<lparr>AuthToken = [], Username = [], DataSource = [], AvailableDataSources = []\<rparr>"
  obtain err a where f: "fold (AuthResponse_member L) kvs (None, ?a0) = (err, a)"
    by (cases "fold (AuthResponse_member L) kvs (None, ?a0)")
  have "err = None" using fold_AuthResponse_typed [OF assms(2), of "(None, ?a0)"] f by simp
  moreover have "AuthToken a = tok"
    using fold_AuthResponse_AuthToken [OF assms(3), of "(None, ?a0)"] f by simp
  moreover have "DataSource a = src"
    using fold_AuthResponse_DataSource [OF assms(4), of "(None, ?a0)"] f by simp
  ultimately show ?thesis
    using f assms(1) by (simp add: json_Decode_AuthResponse_def Let_def)
qed

text \<open>
  C7. When the token exchange is answered with status 200 and a JSON object that
  carries the auth token and the data source as strings (\<^verbatim>\<open>"T"\<close> and
  \<^verbatim>\<open>"postgresql"\<close> in the scenario), \<^verbatim>\<open>Authenticate\<close> returns no error, and
  afterwards the client holds that token and that data source, which
  \<^verbatim>\<open>AuthToken()\<close> and \<^verbatim>\<open>DataSource()\<close> return.
\<close>

theorem Authenticate_stores_session:
  assumes "auth_request L c username password = Inr req"
      and "httpClient c req = Inr resp"
      and "StatusCode resp = 200"
      and "Body resp = Inr bs"
      and "json_first L bs = Some (JObject kvs)"
      and "list_all (AuthResponse_typed L) kvs"
      and "field_member (\<lambda>k. AuthResponse_field_of L k = Some FAuthToken) kvs = Some (JString tok)"
      and "field_member (\<lambda>k. AuthResponse_field_of L k = Some FDataSource) kvs = Some (JString src)"
  shows "Authenticate L c username password = (None, c\<lparr>authToken := tok, dataSource := src\<rparr>)
     \<and> Client_AuthToken (snd (Authenticate L c username password)) = tok
     \<and> Client_DataSource (snd (Authenticate L c username password)) = src"
proof -
  from json_Decode_AuthResponse_object [OF assms(5-8)]
  obtain auth where d: "json_Decode_AuthResponse L (Inr bs) = Inr auth"
    and t: "AuthToken auth = tok" and s: "DataSource auth = src"
    by blast
  have "Authenticate L c username password = (None, c\<lparr>authToken := tok, dataSource := src\<rparr>)"
    using assms(1-4) d t s by (simp add: Authenticate_def)
  then show ?thesis by (simp add: Client_AuthToken_def Client_DataSource_def)
qed

theorem Authenticate_stores_session_witness:
  "StatusCode sample_login = 200
   \<and> json_first sample_stdlib ''{\"authToken\":\"T\",\"dataSource\":\"postgresql\"}''
       = Some (JObject [(''authToken'', JString ''T''), (''dataSource'', JString ''postgresql'')])
   \<and> fst (Authenticate sample_stdlib
        ((sample_client sample_login)\<lparr>authToken := '''', dataSource := ''''\<rparr>)
        ''guacadmin'' ''secret'') = None
   \<and> Client_AuthToken (snd (Authenticate sample_stdlib
        ((sample_client sample_login)\<lparr>authToken := '''', dataSource := ''''\<rparr>)
        ''guacadmin'' ''secret'')) = ''T''
   \<and> Client_DataSource (snd (Authenticate sample_stdlib
        ((sample_client sample_login)\<lparr>authToken := '''', dataSource := ''''\<rparr>)
        ''guacadmin'' ''secret'')) = ''postgresql''"
proof -
  let ?c = "(sample_client sample_login)\<lparr>authToken := '''', dataSource := ''''\<rparr>"
  let ?req = "\<lparr>req_method = ''POST'', req_url = ''http://localhost:8080/guacamole/api/tokens'',
      req_header = [(''Content-Type'', ''application/x-www-form-urlencoded'')],
      req_body = Some ''password=secret&username=guacadmin''\<rparr>"
  let ?kvs = "[(''authToken'', JString ''T''), (''dataSource'', JString ''postgresql'')]"
  have r: "auth_request sample_stdlib ?c ''guacadmin'' ''secret'' = Inr ?req"
    by (simp add: auth_request_def http_NewRequest_def Header_Set_def sample_client_def
        sample_stdlib_def)
  have t: "httpClient ?c ?req = Inr sample_login"
    by (simp add: sample_client_def)
  have s: "StatusCode sample_login = 200"
    by (simp add: sample_login_def)
  have b: "Body sample_login = Inr ''{\"authToken\":\"T\",\"dataSource\":\"postgresql\"}''"
    by (simp add: sample_login_def)
  have j: "json_first sample_stdlib ''{\"authToken\":\"T\",\"dataSource\":\"postgresql\"}''
       = Some (JObject ?kvs)"
    by (simp add: sample_stdlib_def sample_json_def)
  have ty: "list_all (AuthResponse_typed sample_stdlib) ?kvs"
    by (simp add: AuthResponse_typed_def AuthResponse_field_of_def string_or_null_def)
  have ft: "field_member (\<lambda>k. AuthResponse_field_of sample_stdlib k = Some FAuthToken) ?kvs
              = Some (JString ''T'')"
    by (simp add: field_member_def AuthResponse_field_of_def)
  have fd: "field_member (\<lambda>k. AuthResponse_field_of sample_stdlib k = Some FDataSource) ?kvs
              = Some (JString ''postgresql'')"
    by (simp add: field_member_def AuthResponse_field_of_def)
  from Authenticate_stores_session [OF r t s b j ty ft fd] s j show ?thesis
    by (simp add: Client_AuthToken_def Client_DataSource_def)
qed

text \<open>
  C8. When the token exchange is answered with a status outside [200,300),
  \<^verbatim>\<open>Authenticate\<close> returns the \<^verbatim>\<open>*APIError\<close> that \<^verbatim>\<open>parseError\<close> builds from the
  response (its HTTP status is the status of the response) and leaves the client
  as it was: the stored token and data source keep their values.
\<close>

theorem Authenticate_non_2xx_keeps_session:
  assumes "auth_request L c username password = Inr req"
      and "httpClient c req = Inr resp"
      and "StatusCode resp < 200 \<or> 300 \<le> StatusCode resp"
  shows "Authenticate L c username password = (Some (ErrAPI (parseError L resp)), c)
     \<and> HTTPStatus (parseError L resp) = StatusCode resp
     \<and> authToken (snd (Authenticate L c username password)) = authToken c
     \<and> dataSource (snd (Authenticate L c username password)) = dataSource c"
proof -
  from assms(3) have "StatusCode resp \<noteq> 200" by auto
  with assms(1,2) have "Authenticate L c username password = (Some (ErrAPI (parseError L resp)), c)"
    by (simp add: Authenticate_def)
  then show ?thesis by (simp add: parseError_status)
qed

theorem Authenticate_non_2xx_keeps_session_witness:
  "(StatusCode sample_forbidden < 200 \<or> 300 \<le> StatusCode sample_forbidden)
   \<and> Authenticate sample_stdlib (sample_client sample_forbidden) ''bad'' ''creds''
       = (Some (ErrAPI \<lparr>Message = ''Invalid credentials.'', Type = ''PERMISSION_DENIED'',
                        HTTPStatus = 403\<rparr>),
          sample_client sample_forbidden)
   \<and> authToken (snd (Authenticate sample_stdlib (sample_client sample_forbidden) ''bad'' ''creds''))
       = ''test-token''
   \<and> dataSource (snd (Authenticate sample_stdlib (sample_client sample_forbidden) ''bad'' ''creds''))
       = ''postgresql''"
proof -
  let ?c = "sample_client sample_forbidden"
  let ?req = "\<lparr>req_method = ''POST'', req_url = ''http://localhost:8080/guacamole/api/tokens'',
      req_header = [(''Content-Type'', ''application/x-www-form-urlencoded'')],
      req_body = Some ''password=creds&username=bad''\<rparr>"
  have r: "auth_request sample_stdlib ?c ''bad'' ''creds'' = Inr ?req"
    by (simp add: auth_request_def http_NewRequest_def Header_Set_def sample_client_def
        sample_stdlib_def)
  have t: "httpClient ?c ?req = Inr sample_forbidden"
    by (simp add: sample_client_def)
  have s: "StatusCode sample_forbidden < 200 \<or> 300 \<le> StatusCode sample_forbidden"
    by (simp add: sample_forbidden_def)
  have p: "parseError sample_stdlib sample_forbidden
      = \<lparr>Message = ''Invalid credentials.'', Type = ''PERMISSION_DENIED'', HTTPStatus = 403\<rparr>"
    by (simp add: parseError_def json_Unmarshal_APIError_def APIError_member_def
        APIError_field_of_def sample_forbidden_def sample_stdlib_def sample_json_def)
  have a: "authToken ?c = ''test-token'' \<and> dataSource ?c = ''postgresql''"
    by (simp add: sample_client_def)
  from Authenticate_non_2xx_keeps_session [OF r t s] s p a show ?thesis
    by simp
qed

text \<open>
  C10. \<^verbatim>\<open>Authenticate\<close> takes exactly status 200 as success. For any other status
  of the response, other 2xx codes such as 201 and 204 included, it returns the
  \<^verbatim>\<open>*APIError\<close> parsed from the response and leaves the client unchanged; for
  status 200 it never returns an \<^verbatim>\<open>*APIError\<close>.
\<close>

theorem Authenticate_only_200_succeeds:
  assumes "auth_request L c username password = Inr req"
      and "httpClient c req = Inr resp"
  shows "(StatusCode resp \<noteq> 200 \<longrightarrow>
            Authenticate L c username password = (Some (ErrAPI (parseError L resp)), c))
     \<and> (StatusCode resp = 200 \<longrightarrow>
            (\<forall>a. fst (Authenticate L c username password) \<noteq> Some (ErrAPI a)))"
  using assms by (auto simp: Authenticate_def split: sum.splits)

theorem Authenticate_only_200_succeeds_witness:
  "StatusCode sample_no_content \<noteq> 200
   \<and> Authenticate sample_stdlib (sample_client sample_no_content) ''guacadmin'' ''secret''
       = (Some (ErrAPI \<lparr>Message = ''No Content'', Type = '''', HTTPStatus = 204\<rparr>),
          sample_client sample_no_content)
   \<and> StatusCode sample_login = 200
   \<and> fst (Authenticate sample_stdlib (sample_client sample_login) ''guacadmin'' ''secret'') = None"
proof -
  let ?req = "\<lparr>req_method = ''POST'', req_url = ''http://localhost:8080/guacamole/api/tokens'',
      req_header = [(''Content-Type'', ''application/x-www-form-urlencoded'')],
      req_body = Some ''password=secret&username=guacadmin''\<rparr>"
  have r: "auth_request sample_stdlib (sample_client resp) ''guacadmin'' ''secret'' = Inr ?req" for resp
    by (simp add: auth_request_def http_NewRequest_def Header_Set_def sample_client_def
        sample_stdlib_def)
  have t: "httpClient (sample_client resp) ?req = Inr resp" for resp
    by (simp add: sample_client_def)
  have s: "StatusCode sample_no_content \<noteq> 200" "StatusCode sample_login = 200"
    by (simp_all add: sample_no_content_def sample_login_def)
  have p: "parseError sample_stdlib sample_no_content
      = \<lparr>Message = ''No Content'', Type = '''', HTTPStatus = 204\<rparr>"
    by (simp add: parseError_def sample_no_content_def sample_stdlib_def sample_StatusText_def)
  have ok: "fst (Authenticate sample_stdlib (sample_client sample_login) ''guacadmin'' ''secret'') = None"
  proof -
    have "json_Decode_AuthResponse sample_stdlib (Body sample_login)
        = Inr \<lparr>AuthToken = ''T'', Username = [], DataSource = ''postgresql'',
               AvailableDataSources = []\<rparr>"
      by (simp add: json_Decode_AuthResponse_def AuthResponse_member_def
          AuthResponse_field_of_def sample_login_def sample_stdlib_def sample_json_def Let_def)
    then show ?thesis by (simp add: Authenticate_def r t s)
  qed
  from Authenticate_only_200_succeeds [OF r t, of sample_no_content] s p ok show ?thesis
    by simp
qed

end
